theory Spec2Isabelle
  imports Complex_Main
begin

section \<open>Range merging (processor.py, merge_and_optimize_ranges)\<close>

text \<open>
  A time range is a pair (start, end) in milliseconds. The audio detector produces
  integer pairs and the video detector floating-point pairs, so the merger is modelled
  once, for any linearly ordered ring of times.
\<close>

type_synonym 'a time_range = "'a \<times> 'a"

text \<open>
  The \<open>for\<close> loop of \<open>merge_and_optimize_ranges\<close> over \<open>sorted_ranges[1:]\<close>, with its
  three loop variables \<open>current_start\<close>, \<open>current_end\<close> and \<open>merged\<close>; the equation for
  the empty list is the code after the loop.
\<close>

fun merge_loop ::
  "'a::linordered_idom \<Rightarrow> 'a \<Rightarrow> 'a \<Rightarrow> 'a \<Rightarrow> 'a time_range list \<Rightarrow> 'a time_range list
    \<Rightarrow> 'a time_range list" where
  "merge_loop min_duration_ms gap_ms current_start current_end merged [] =
     (if current_end - current_start \<ge> min_duration_ms
      then merged @ [(current_start, current_end)] else merged)"
| "merge_loop min_duration_ms gap_ms current_start current_end merged ((next_start, next_end) # rest) =
     (if next_start < current_end + gap_ms
      then merge_loop min_duration_ms gap_ms current_start (max current_end next_end) merged rest
      else merge_loop min_duration_ms gap_ms next_start next_end
             (if current_end - current_start \<ge> min_duration_ms
              then merged @ [(current_start, current_end)] else merged) rest)"

text \<open>
  Python's \<open>sorted(ranges, key=lambda x: x[0])\<close> is a stable sort on the start, as
  \<open>sort_key fst\<close> is.
\<close>

definition merge_and_optimize_ranges ::
  "'a::linordered_idom time_range list \<Rightarrow> 'a \<Rightarrow> 'a \<Rightarrow> 'a time_range list" where
  "merge_and_optimize_ranges ranges min_duration_ms gap_ms =
     (if ranges = [] then []
      else (case sort_key fst ranges of
              [] \<Rightarrow> []
            | (current_start, current_end) # rest \<Rightarrow>
                merge_loop min_duration_ms gap_ms current_start current_end [] rest))"


section \<open>Audio analysis (audio_tools.py)\<close>

text \<open>
  A chunk of decoded audio as the two functions read it: its RMS energy (an integer in
  pydub) and its loudness in dBFS. The loudness of a chunk of zero energy is never read:
  both functions test \<open>chunk.rms > 0\<close> first.
\<close>

record chunk =
  rms :: int
  dBFS :: real

text \<open>
  \<open>analyze_audio_dB\<close>: the list \<open>loudness_dBs\<close> starts as \<open>[-90.0] * len(chunks)\<close> and entry
  \<open>i\<close> is overwritten with \<open>chunk.dBFS\<close> when \<open>chunk.rms > 0\<close>.
\<close>

definition chunk_loudness :: "chunk \<Rightarrow> real" where
  "chunk_loudness c = (if rms c > 0 then dBFS c else - 90)"

text \<open>The calls of \<open>progress_callback(i, len(chunks))\<close>, made when \<open>i % 20 == 0\<close>.\<close>

definition analyze_audio_progress :: "chunk list \<Rightarrow> (nat \<times> nat) list" where
  "analyze_audio_progress chunks =
     map (\<lambda>i. (i, length chunks)) (filter (\<lambda>i. i mod 20 = 0) [0 ..< length chunks])"

text \<open>The returned tuple (min, max, mean, list of dB values).\<close>

definition analyze_audio_dB :: "chunk list \<Rightarrow> real \<times> real \<times> real \<times> real list" where
  "analyze_audio_dB chunks =
     (let loudness_dBs = map chunk_loudness chunks;
          valid_dbs = filter (\<lambda>db. db > - 90) loudness_dBs
      in if valid_dbs = [] then (- 90, - 90, - 90, [])
         else (Min (set valid_dbs), Max (set valid_dbs),
               sum_list valid_dbs / real (length valid_dbs), loudness_dBs))"

text \<open>
  \<open>detect_silence_based_on_dB\<close>: \<open>is_silent_chunk\<close> is the conditional expression of the
  loop body; the loop state is (\<open>is_in_silence\<close>, \<open>silence_start_time\<close>, \<open>silence_ranges\<close>)
  and \<open>i\<close> is the index that \<open>enumerate\<close> supplies.
\<close>

definition is_silent_chunk :: "real \<Rightarrow> chunk \<Rightarrow> bool" where
  "is_silent_chunk silence_thresh_dB c = (if rms c > 0 then dBFS c < silence_thresh_dB else True)"

fun silence_loop ::
  "real \<Rightarrow> int \<Rightarrow> nat \<Rightarrow> chunk list \<Rightarrow> bool \<times> int \<times> int time_range list
    \<Rightarrow> bool \<times> int \<times> int time_range list" where
  "silence_loop silence_thresh_dB chunk_length_ms i [] st = st"
| "silence_loop silence_thresh_dB chunk_length_ms i (c # chunks)
     (is_in_silence, silence_start_time, silence_ranges) =
     (let time_ms = int i * chunk_length_ms
      in silence_loop silence_thresh_dB chunk_length_ms (Suc i) chunks
           (if is_silent_chunk silence_thresh_dB c
            then (if \<not> is_in_silence then (True, time_ms, silence_ranges)
                  else (is_in_silence, silence_start_time, silence_ranges))
            else if is_in_silence
                 then (False, silence_start_time, silence_ranges @ [(silence_start_time, time_ms)])
                 else (is_in_silence, silence_start_time, silence_ranges)))"

text \<open>
  The decoded audio is given by its length in milliseconds (\<open>len(audio)\<close>) and its
  chunks (\<open>make_chunks(audio, chunk_length_ms)\<close>).
\<close>

definition detect_silence_based_on_dB ::
  "int \<Rightarrow> chunk list \<Rightarrow> real \<Rightarrow> int \<Rightarrow> int time_range list" where
  "detect_silence_based_on_dB audio_len chunks silence_thresh_dB chunk_length_ms =
     (case silence_loop silence_thresh_dB chunk_length_ms 0 chunks (False, 0, []) of
        (is_in_silence, silence_start_time, silence_ranges) \<Rightarrow>
          if is_in_silence then silence_ranges @ [(silence_start_time, audio_len)]
          else silence_ranges)"

section \<open>Static-region detection (video_tools.py)\<close>

text \<open>
  \<open>detect_central_static_frames\<close>. The capture is given by whether it opened, the frame
  rate and frame count it reports (OpenCV reports 0 for a property it cannot read), and
  the differences that \<open>_iterate_frames_for_diff\<close> yields, numbered from frame 1.
  The loop state is (\<open>is_in_static\<close>, \<open>static_start_frame\<close>, \<open>static_ranges\<close>).
\<close>

fun static_loop ::
  "real \<Rightarrow> real \<Rightarrow> nat \<Rightarrow> real list \<Rightarrow> bool \<times> nat \<times> real time_range list
    \<Rightarrow> bool \<times> nat \<times> real time_range list" where
  "static_loop movement_thresh fps frame_num [] st = st"
| "static_loop movement_thresh fps frame_num (frame_diff # frame_diffs)
     (is_in_static, static_start_frame, static_ranges) =
     (let is_static_now = frame_diff < movement_thresh
      in static_loop movement_thresh fps (Suc frame_num) frame_diffs
           (if is_static_now \<and> \<not> is_in_static then (True, frame_num, static_ranges)
            else if \<not> is_static_now \<and> is_in_static
                 then (False, static_start_frame,
                       static_ranges @ [((real static_start_frame / fps) * 1000,
                                         (real frame_num / fps) * 1000)])
                 else (is_in_static, static_start_frame, static_ranges)))"

definition detect_central_static_frames ::
  "bool \<Rightarrow> real \<Rightarrow> int \<Rightarrow> real list \<Rightarrow> real \<Rightarrow> real time_range list" where
  "detect_central_static_frames is_opened reported_fps total_frames frame_diffs movement_thresh =
     (if \<not> is_opened then []
      else let fps = (if reported_fps > 0 then reported_fps else 30)
           in case static_loop movement_thresh fps 1 frame_diffs (False, 0, []) of
                (is_in_static, static_start_frame, static_ranges) \<Rightarrow>
                  if is_in_static
                  then static_ranges @ [((real static_start_frame / fps) * 1000,
                                         (real_of_int total_frames / fps) * 1000)]
                  else static_ranges)"


section \<open>The filter-graph builder (processor.py, _FFmpegFilterBuilder)\<close>

text \<open>
  The builder assembles ffmpeg filter strings. Each string is modelled by a constructor
  holding exactly the values the f-string interpolates:
  \<^item> \<open>VTrim s e n\<close> is \<open>[0:v]trim=start=s:end=e,setpts=PTS-STARTPTS[vn]\<close>;
  \<^item> \<open>VTrimSpeed s e f n\<close> is \<open>[0:v]trim=start=s:end=e,setpts=PTS/f-STARTPTS[vn]\<close>;
  \<^item> \<open>VConcat ins n fps\<close> is \<open>ins concat=n=n:v=1:a=0,fps=fps[outv]\<close>;
  \<^item> \<open>ATrim s e n\<close> is \<open>[0:a]atrim=start=s:end=e,asetpts=PTS-STARTPTS[an]\<close>;
  \<^item> \<open>ATrimSpeed s e chain vol n\<close> is the same with the atempo chain and \<open>volume=vol\<close>;
  \<^item> \<open>AConcat ins n\<close> is \<open>ins concat=n=n:v=0:a=1[outa]\<close>.
  The strings \<open>v_concat_inputs\<close> and \<open>a_concat_inputs\<close> are the lists of the stream
  numbers they name. Times and factors are Python floats, modelled as reals.
\<close>

datatype vfilter =
    VTrim real real nat
  | VTrimSpeed real real real nat
  | VConcat "nat list" nat real

datatype afilter =
    ATrim real real nat
  | ATrimSpeed real real "real list" real nat
  | AConcat "nat list" nat

record FFmpegFilterBuilder =
  has_audio :: bool
  fps :: real
  video_filters :: "vfilter list"
  audio_filters :: "afilter list"
  v_concat_inputs :: "nat list"
  a_concat_inputs :: "nat list"
  stream_counter :: nat

definition builder_init :: "bool \<Rightarrow> real \<Rightarrow> FFmpegFilterBuilder" where
  "builder_init audio rate =
     \<lparr>has_audio = audio, fps = rate, video_filters = [], audio_filters = [],
      v_concat_inputs = [], a_concat_inputs = [], stream_counter = 0\<rparr>"

text \<open>
  The format specification \<open>.4f\<close>: the value rounded to four decimals, ties to even.
\<close>

definition fmt4 :: "real \<Rightarrow> real" where
  "fmt4 x =
     (let y = x * 10000; f = \<lfloor>y\<rfloor>; r = y - of_int f
      in (if r < 1 / 2 then of_int f
          else if r > 1 / 2 then of_int (f + 1)
          else if even f then of_int f else of_int (f + 1)) / 10000)"

text \<open>
  \<open>_build_atempo_chain\<close>: the \<open>while\<close> loop appends \<open>atempo=100.0\<close> and divides the factor
  by 100 as long as it exceeds 100. The result is the list of the stage multipliers, in
  the order in which \<open>",".join(filters)\<close> writes them.
\<close>

function atempo_loop :: "real \<Rightarrow> real list \<Rightarrow> real \<times> real list" where
  "atempo_loop factor filters =
     (if factor > 100 then atempo_loop (factor / 100) (filters @ [100]) else (factor, filters))"
  by pat_completeness auto
termination
proof (relation "measure (\<lambda>(factor, filters). nat \<lfloor>factor\<rfloor>)")
  show "wf (measure (\<lambda>(factor, filters). nat \<lfloor>factor\<rfloor>))" by simp
next
  fix factor :: real and filters :: "real list"
  assume big: "100 < factor"
  have "factor / 100 < factor - 1" using big by simp
  moreover have "factor - 1 < of_int \<lfloor>factor\<rfloor>" by linarith
  ultimately have "\<lfloor>factor / 100\<rfloor> < \<lfloor>factor\<rfloor>" by linarith
  moreover have "0 < \<lfloor>factor\<rfloor>" using big by linarith
  ultimately show "((factor / 100, filters @ [100]), (factor, filters))
      \<in> measure (\<lambda>(factor, filters). nat \<lfloor>factor\<rfloor>)"
    by simp
qed

declare atempo_loop.simps [simp del]

definition build_atempo_chain :: "real \<Rightarrow> real list" where
  "build_atempo_chain factor =
     (if factor \<le> 1 then []
      else case atempo_loop factor [] of
             (factor', filters) \<Rightarrow>
               if factor' > 1 then filters @ [fmt4 factor'] else filters)"

definition add_clip :: "FFmpegFilterBuilder \<Rightarrow> real \<Rightarrow> real \<Rightarrow> FFmpegFilterBuilder" where
  "add_clip b start_ms end_ms =
     (if start_ms \<ge> end_ms then b
      else let start_sec = start_ms / 1000; end_sec = end_ms / 1000;
               b1 = b\<lparr>video_filters := video_filters b @ [VTrim start_sec end_sec (stream_counter b)],
                      v_concat_inputs := v_concat_inputs b @ [stream_counter b]\<rparr>;
               b2 = (if has_audio b1
                     then b1\<lparr>audio_filters :=
                                audio_filters b1 @ [ATrim start_sec end_sec (stream_counter b1)],
                             a_concat_inputs := a_concat_inputs b1 @ [stream_counter b1]\<rparr>
                     else b1)
           in b2\<lparr>stream_counter := stream_counter b2 + 1\<rparr>)"

definition add_speedup_clip ::
  "FFmpegFilterBuilder \<Rightarrow> real \<Rightarrow> real \<Rightarrow> real \<Rightarrow> real \<Rightarrow> FFmpegFilterBuilder" where
  "add_speedup_clip b start_ms end_ms factor volume =
     (if start_ms \<ge> end_ms then b
      else let start_sec = start_ms / 1000; end_sec = end_ms / 1000;
               b1 = b\<lparr>video_filters :=
                        video_filters b @ [VTrimSpeed start_sec end_sec factor (stream_counter b)],
                      v_concat_inputs := v_concat_inputs b @ [stream_counter b]\<rparr>;
               b2 = (if has_audio b1
                     then b1\<lparr>audio_filters :=
                                audio_filters b1 @
                                  [ATrimSpeed start_sec end_sec (build_atempo_chain factor)
                                     (fmt4 volume) (stream_counter b1)],
                             a_concat_inputs := a_concat_inputs b1 @ [stream_counter b1]\<rparr>
                     else b1)
           in b2\<lparr>stream_counter := stream_counter b2 + 1\<rparr>)"

text \<open>\<open>build\<close> returns (video filter graph, audio filter graph, stream count); the empty
  string is the empty list.\<close>

definition build :: "FFmpegFilterBuilder \<Rightarrow> vfilter list \<times> afilter list \<times> nat" where
  "build b =
     (if stream_counter b = 0 then ([], [], 0)
      else (video_filters b @ [VConcat (v_concat_inputs b) (stream_counter b) (fps b)],
            (if has_audio b \<and> a_concat_inputs b \<noteq> []
             then audio_filters b @ [AConcat (a_concat_inputs b) (stream_counter b)]
             else []),
            stream_counter b))"


section \<open>Rendering (processor.py)\<close>

text \<open>
  The processing mode is a string compared with the word for "speed-up"; every other
  value cuts. The opened source is given by what the code reads from it: \<open>video.fps\<close>
  (which may be \<open>None\<close>), whether \<open>video.audio\<close> is present, and \<open>video.duration\<close> in
  seconds. The configuration is a dictionary read with \<open>config.get(key, default)\<close>, so
  each key may be absent.
\<close>

datatype processing_mode = Cut | SpeedUp

record video_clip =
  video_fps :: "real option"
  video_has_audio :: bool
  video_duration :: real

record config =
  cfg_speedup_factor :: "real option"
  cfg_speedup_volume_percent :: "real option"
  cfg_use_ffmpeg_direct :: "bool option"
  cfg_encoder_priority :: "string list option"

text \<open>The \<open>for\<close> loop of \<open>_process_chunk\<close>; the state is (\<open>builder\<close>, \<open>last_end_ms\<close>).\<close>

fun chunk_loop ::
  "processing_mode \<Rightarrow> real \<Rightarrow> real \<Rightarrow> real \<Rightarrow> real \<Rightarrow> real time_range list
    \<Rightarrow> FFmpegFilterBuilder \<times> real \<Rightarrow> FFmpegFilterBuilder \<times> real" where
  "chunk_loop processing_mode pre_cut_ms post_cut_ms speedup_factor speedup_volume [] st = st"
| "chunk_loop processing_mode pre_cut_ms post_cut_ms speedup_factor speedup_volume
     ((start_ms, end_ms) # rest) (builder, last_end_ms) =
     (let proc_start = start_ms - pre_cut_ms;
          proc_end = end_ms + post_cut_ms;
          b1 = add_clip builder last_end_ms proc_start;
          b2 = (if processing_mode = SpeedUp
                then add_speedup_clip b1 proc_start proc_end speedup_factor speedup_volume
                else b1)
      in chunk_loop processing_mode pre_cut_ms post_cut_ms speedup_factor speedup_volume rest
           (b2, end_ms))"

text \<open>Lines 131 to 159 of \<open>_process_chunk\<close>: the builder just before \<open>builder.build()\<close>.\<close>

definition process_chunk_builder ::
  "video_clip \<Rightarrow> real time_range list \<Rightarrow> processing_mode \<Rightarrow> real \<Rightarrow> real \<Rightarrow> real \<Rightarrow> config
    \<Rightarrow> FFmpegFilterBuilder" where
  "process_chunk_builder video ranges_to_process processing_mode pre_cut_seconds post_cut_seconds
       video_duration_ms cfg =
     (let rate = (case video_fps video of
                    None \<Rightarrow> 30
                  | Some f \<Rightarrow> if f \<noteq> 0 \<and> f > 0 then f else 30);
          audio = video_has_audio video;
          pre_cut_ms = pre_cut_seconds * 1000;
          post_cut_ms = post_cut_seconds * 1000;
          speedup_factor = (case cfg_speedup_factor cfg of None \<Rightarrow> 5 | Some f \<Rightarrow> f);
          speedup_volume =
            (case cfg_speedup_volume_percent cfg of None \<Rightarrow> 50 | Some p \<Rightarrow> p) / 100
      in case chunk_loop processing_mode pre_cut_ms post_cut_ms speedup_factor speedup_volume
                ranges_to_process (builder_init audio rate, 0) of
           (builder, last_end_ms) \<Rightarrow> add_clip builder last_end_ms video_duration_ms)"

text \<open>
  The three external steps, and what \<open>subprocess.run(..., check=True)\<close> can do: return
  with exit status zero, raise \<open>CalledProcessError\<close> on a non-zero status, or raise
  another exception (the executable is missing, say). What the program does beyond
  returning is recorded as a trace of events.
\<close>

datatype step = VideoPass | AudioPass | MuxPass

datatype proc_result = Exit0 | ExitNonZero | OSFailure

datatype exn = KeyError | IndexError | OSError

datatype event =
    RunFFmpeg step
  | ShowError step
  | ProgressForced
  | ProgressDone
  | ShowInfoDone
  | CallMoviePy

text \<open>
  \<open>_run_ffmpeg_command\<close>: \<open>CalledProcessError\<close> is caught, an error dialog is shown and
  \<open>False\<close> is returned; any other exception propagates.
\<close>

definition run_ffmpeg_command :: "(step \<Rightarrow> proc_result) \<Rightarrow> step \<Rightarrow> (exn + bool) \<times> event list" where
  "run_ffmpeg_command ffmpeg s =
     (case ffmpeg s of
        Exit0 \<Rightarrow> (Inr True, [RunFFmpeg s])
      | ExitNonZero \<Rightarrow> (Inr False, [RunFFmpeg s, ShowError s])
      | OSFailure \<Rightarrow> (Inl OSError, [RunFFmpeg s]))"

text \<open>
  \<open>_process_chunk\<close> from \<open>builder.build()\<close> on. Building the video command reads
  \<open>config["encoder_priority"][0]\<close>, which raises on a missing key or an empty list.
\<close>

definition process_chunk ::
  "(step \<Rightarrow> proc_result) \<Rightarrow> video_clip \<Rightarrow> real time_range list \<Rightarrow> processing_mode \<Rightarrow> real
    \<Rightarrow> real \<Rightarrow> real \<Rightarrow> config \<Rightarrow> (exn + bool) \<times> event list" where
  "process_chunk ffmpeg video ranges_to_process processing_mode pre_cut_seconds post_cut_seconds
       video_duration_ms cfg =
     (case build (process_chunk_builder video ranges_to_process processing_mode pre_cut_seconds
                    post_cut_seconds video_duration_ms cfg) of
        (video_fc, audio_fc, stream_count) \<Rightarrow>
          if stream_count = 0 then (Inr True, [])
          else (case cfg_encoder_priority cfg of
                  None \<Rightarrow> (Inl KeyError, [])
                | Some [] \<Rightarrow> (Inl IndexError, [])
                | Some (encoder # _) \<Rightarrow>
                    (case run_ffmpeg_command ffmpeg VideoPass of
                       (Inr True, ev1) \<Rightarrow>
                         (case (if video_has_audio video \<and> audio_fc \<noteq> []
                                then run_ffmpeg_command ffmpeg AudioPass
                                else (Inr True, [])) of
                            (Inr True, ev2) \<Rightarrow>
                              (case run_ffmpeg_command ffmpeg MuxPass of
                                 (r, ev3) \<Rightarrow> (r, ev1 @ ev2 @ ev3))
                          | (r, ev2) \<Rightarrow> (r, ev1 @ ev2))
                     | (r, ev1) \<Rightarrow> (r, ev1))))"




text \<open>
  \<open>cut_or_speedup_video\<close>. Lines 235 to 251 decide whether the ffmpeg path is used
  (\<open>select_backend\<close> returns the final value of \<open>use_ffmpeg_direct\<close>); the rest runs it.
  An exception raised inside the \<open>try\<close> block hands the job to \<open>_process_with_moviepy\<close>.
\<close>

definition MAX_CONCAT_STREAMS :: nat where
  "MAX_CONCAT_STREAMS = 50"

definition select_backend :: "config \<Rightarrow> video_clip \<Rightarrow> real time_range list \<Rightarrow> bool \<times> event list" where
  "select_backend cfg video ranges_to_process =
     (let use_ffmpeg_direct = (case cfg_use_ffmpeg_direct cfg of None \<Rightarrow> True | Some b \<Rightarrow> b)
      in if use_ffmpeg_direct
         then let stream_count = length ranges_to_process * 2 + 1;
                  stream_count' = (if video_has_audio video
                                   then length ranges_to_process * 2 + 1 else stream_count)
              in if stream_count' > MAX_CONCAT_STREAMS then (False, [ProgressForced])
                 else (use_ffmpeg_direct, [])
         else (use_ffmpeg_direct, []))"

definition cut_or_speedup_video ::
  "(step \<Rightarrow> proc_result) \<Rightarrow> video_clip \<Rightarrow> real time_range list \<Rightarrow> processing_mode \<Rightarrow> real
    \<Rightarrow> real \<Rightarrow> config \<Rightarrow> event list" where
  "cut_or_speedup_video ffmpeg video ranges_to_process processing_mode pre_cut_seconds
       post_cut_seconds cfg =
     (case select_backend cfg video ranges_to_process of
        (use_ffmpeg_direct, ev0) \<Rightarrow>
          if use_ffmpeg_direct
          then (case process_chunk ffmpeg video ranges_to_process processing_mode pre_cut_seconds
                       post_cut_seconds (video_duration video * 1000) cfg of
                  (Inr True, evs) \<Rightarrow> ev0 @ evs @ [ProgressDone, ShowInfoDone]
                | (Inr False, evs) \<Rightarrow> ev0 @ evs
                | (Inl e, evs) \<Rightarrow> ev0 @ evs @ [CallMoviePy])
          else ev0 @ [CallMoviePy])"



fun passthrough_segment :: "vfilter \<Rightarrow> real time_range list" where
  "passthrough_segment (VTrim s e n) = [(s * 1000, e * 1000)]"
| "passthrough_segment (VTrimSpeed s e f n) = []"
| "passthrough_segment (VConcat ins n r) = []"

definition passthrough_segments :: "FFmpegFilterBuilder \<Rightarrow> real time_range list" where
  "passthrough_segments b = concat (map passthrough_segment (video_filters b))"






section \<open>Properties of the range merger\<close>

text \<open>The accumulator \<open>merged\<close> only ever grows at its end.\<close>

lemma merge_loop_acc:
  "merge_loop d g cs ce acc rest = acc @ merge_loop d g cs ce [] rest"
proof (induction rest arbitrary: cs ce acc)
  case Nil show ?case by simp
next
  case (Cons r rest)
  obtain ns ne where r: "r = (ns, ne)" by (cases r)
  show ?case unfolding r
    using Cons.IH[of cs "max ce ne" acc] Cons.IH[of ns ne "acc @ [(cs,ce)]"] Cons.IH[of ns ne "[(cs,ce)]"] Cons.IH[of ns ne acc]
    by simp
qed

lemma merge_loop_step:
  "merge_loop d g cs ce [] ((ns, ne) # rest) =
     (if ns < ce + g then merge_loop d g cs (max ce ne) [] rest
      else (if d \<le> ce - cs then [(cs, ce)] else []) @ merge_loop d g ns ne [] rest)"
  using merge_loop_acc[of d g ns ne "[(cs, ce)]" rest] by simp

lemma merge_loop_dur:
  "r \<in> set (merge_loop d g cs ce [] rest) \<Longrightarrow> d \<le> snd r - fst r"
proof (induction rest arbitrary: cs ce)
  case Nil then show ?case by (simp split: if_splits)
next
  case (Cons x rest)
  obtain ns ne where x: "x = (ns, ne)" by (cases x)
  from Cons.prems show ?case unfolding x merge_loop_step
    using Cons.IH by (auto split: if_splits)
qed

lemma merge_loop_starts:
  "r \<in> set (merge_loop d g cs ce [] rest) \<Longrightarrow> fst r = cs \<or> fst r \<in> fst ` set rest"
proof (induction rest arbitrary: cs ce)
  case Nil then show ?case by (simp split: if_splits)
next
  case (Cons x rest)
  obtain ns ne where x: "x = (ns, ne)" by (cases x)
  from Cons.prems show ?case unfolding x merge_loop_step
    using Cons.IH by (fastforce split: if_splits)
qed

lemma merge_loop_lower:
  assumes "\<forall>x\<in>set rest. cs \<le> fst x" and "r \<in> set (merge_loop d g cs ce [] rest)"
  shows "cs \<le> fst r"
  using merge_loop_starts[OF assms(2)] assms(1) by auto

lemma merge_loop_sorted:
  "sorted (map fst rest) \<Longrightarrow> \<forall>x\<in>set rest. cs \<le> fst x
    \<Longrightarrow> sorted (map fst (merge_loop d g cs ce [] rest))"
proof (induction rest arbitrary: cs ce)
  case Nil then show ?case by simp
next
  case (Cons x rest)
  obtain ns ne where x: "x = (ns, ne)" by (cases x)
  from Cons.prems x have srt: "sorted (map fst rest)" and lo: "\<forall>y\<in>set rest. ns \<le> fst y"
    and cs: "cs \<le> ns" and lo': "\<forall>y\<in>set rest. cs \<le> fst y"
    by auto
  have tail: "sorted (map fst (merge_loop d g ns ne [] rest))"
    by (rule Cons.IH[OF srt lo])
  have bound: "\<forall>r\<in>set (merge_loop d g ns ne [] rest). cs \<le> fst r"
    using merge_loop_lower[OF lo] cs by fastforce
  show ?case unfolding x merge_loop_step
    using Cons.IH[OF srt lo', of "max ce ne"] tail bound by (simp add: sorted_append)
qed

lemma merge_loop_gaps:
  "sorted (map fst rest) \<Longrightarrow> \<forall>x\<in>set rest. cs \<le> fst x
    \<Longrightarrow> sorted_wrt (\<lambda>a b. snd a + g \<le> fst b) (merge_loop d g cs ce [] rest)"
proof (induction rest arbitrary: cs ce)
  case Nil then show ?case by simp
next
  case (Cons x rest)
  obtain ns ne where x: "x = (ns, ne)" by (cases x)
  from Cons.prems x have srt: "sorted (map fst rest)" and lo: "\<forall>y\<in>set rest. ns \<le> fst y"
    and lo': "\<forall>y\<in>set rest. cs \<le> fst y"
    by auto
  have tail: "sorted_wrt (\<lambda>a b. snd a + g \<le> fst b) (merge_loop d g ns ne [] rest)"
    by (rule Cons.IH[OF srt lo])
  have bound: "\<not> ns < ce + g \<Longrightarrow> \<forall>r\<in>set (merge_loop d g ns ne [] rest). ce + g \<le> fst r"
    using merge_loop_lower[OF lo] by fastforce
  show ?case unfolding x merge_loop_step
    using Cons.IH[OF srt lo', of "max ce ne"] tail bound by (simp add: sorted_wrt_append)
qed

lemma merge_loop_fixed:
  "sorted_wrt (\<lambda>a b. snd a + g \<le> fst b) (x # xs) \<Longrightarrow> \<forall>r\<in>set (x # xs). d \<le> snd r - fst r
    \<Longrightarrow> merge_loop d g (fst x) (snd x) [] xs = x # xs"
proof (induction xs arbitrary: x)
  case Nil then show ?case by simp
next
  case (Cons y ys)
  obtain ns ne where y: "y = (ns, ne)" by (cases y)
  from Cons.prems y have "\<not> ns < snd x + g" and "d \<le> snd x - fst x" by auto
  moreover have "merge_loop d g (fst y) (snd y) [] ys = y # ys"
    using Cons.prems by (intro Cons.IH) auto
  ultimately show ?case unfolding y merge_loop_step by simp
qed

lemma sorted_key_head:
  "sort_key fst ranges = x # rest \<Longrightarrow> sorted (map fst rest) \<and> (\<forall>y\<in>set rest. fst x \<le> fst y)"
  using sorted_sort_key[of fst ranges] by auto

text \<open>
  Claim C5. For every list of ranges (in any order, overlapping or not), every minimum
  duration and every gap tolerance \<open>g \<ge> 0\<close>, each range that
  \<open>merge_and_optimize_ranges\<close> returns lasts at least the minimum duration, the returned
  ranges are in ascending order of their starts, and they are pairwise disjoint: each one
  ends no later than every later one starts.
\<close>

theorem merge_output_ok:
  assumes "0 \<le> d" and "0 \<le> g"
  shows "(\<forall>r\<in>set (merge_and_optimize_ranges ranges d g). d \<le> snd r - fst r)
       \<and> sorted (map fst (merge_and_optimize_ranges ranges d g))
       \<and> sorted_wrt (\<lambda>a b. snd a \<le> fst b) (merge_and_optimize_ranges ranges d g)"
proof (cases "sort_key fst ranges")
  case Nil
  then show ?thesis by (simp add: merge_and_optimize_ranges_def)
next
  case (Cons x rest)
  obtain cs ce where x: "x = (cs, ce)" by (cases x)
  have out: "merge_and_optimize_ranges ranges d g = merge_loop d g cs ce [] rest"
    using Cons x by (auto simp: merge_and_optimize_ranges_def)
  from sorted_key_head[OF Cons] x
  have srt: "sorted (map fst rest)" and lo: "\<forall>y\<in>set rest. cs \<le> fst y"
    by auto
  have "sorted_wrt (\<lambda>a b. snd a + g \<le> fst b) (merge_loop d g cs ce [] rest)"
    by (rule merge_loop_gaps[OF srt lo])
  then have "sorted_wrt (\<lambda>a b. snd a \<le> fst b) (merge_loop d g cs ce [] rest)"
  proof (rule sorted_wrt_mono_rel[rotated])
    fix a b :: "'a \<times> 'a"
    assume "snd a + g \<le> fst b"
    moreover have "snd a \<le> snd a + g" using assms(2) by simp
    ultimately show "snd a \<le> fst b" by (rule order_trans[rotated])
  qed
  then show ?thesis unfolding out
    using merge_loop_dur[of _ d g cs ce rest] merge_loop_sorted[OF srt lo] by blast
qed

theorem merge_output_ok_witness:
  "(0::int) \<le> 50 \<and> (0::int) \<le> 100
   \<and> merge_and_optimize_ranges [(150, 300), (0, 100), (700, 900), (500, 520)] 50 (100::int)
       = [(0, 300), (700, 900)]
   \<and> list_all (\<lambda>r. 50 \<le> snd r - fst r)
        (merge_and_optimize_ranges [(150, 300), (0, 100), (700, 900), (500, 520)] 50 (100::int))
   \<and> sorted (map fst
        (merge_and_optimize_ranges [(150, 300), (0, 100), (700, 900), (500, 520)] 50 (100::int)))
   \<and> sorted_wrt (\<lambda>a b. snd a \<le> fst b)
        (merge_and_optimize_ranges [(150, 300), (0, 100), (700, 900), (500, 520)] 50 (100::int))"
proof -
  have computed: "merge_and_optimize_ranges [(150, 300), (0, 100), (700, 900), (500, 520)] 50 (100::int)
      = [(0, 300), (700, 900)]"
    by (simp add: merge_and_optimize_ranges_def)
  show ?thesis
    using merge_output_ok[of "50::int" 100 "[(150, 300), (0, 100), (700, 900), (500, 520)]"] computed
    by simp
qed

text \<open>
  Claim C6. \<open>merge_and_optimize_ranges\<close> is idempotent: for every list of ranges, every
  minimum duration and every gap tolerance, merging the output again with the same two
  parameters returns the output unchanged.
\<close>

theorem merge_idem:
  "merge_and_optimize_ranges (merge_and_optimize_ranges ranges d g) d g
     = merge_and_optimize_ranges ranges d g"
proof (cases "sort_key fst ranges")
  case Nil
  then show ?thesis by (simp add: merge_and_optimize_ranges_def)
next
  case (Cons x rest)
  obtain cs ce where x: "x = (cs, ce)" by (cases x)
  define out where "out = merge_loop d g cs ce [] rest"
  have out: "merge_and_optimize_ranges ranges d g = out"
    using Cons x by (auto simp: merge_and_optimize_ranges_def out_def)
  from sorted_key_head[OF Cons] x have srt: "sorted (map fst rest)" and lo: "\<forall>y\<in>set rest. cs \<le> fst y"
    by auto
  have gaps: "sorted_wrt (\<lambda>a b. snd a + g \<le> fst b) out"
    unfolding out_def by (rule merge_loop_gaps[OF srt lo])
  have durs: "\<forall>r\<in>set out. d \<le> snd r - fst r"
    unfolding out_def using merge_loop_dur by blast
  have "sorted (map fst out)"
    unfolding out_def by (rule merge_loop_sorted[OF srt lo])
  then have same: "sort_key fst out = out" by (rule sort_key_id_if_sorted)
  show ?thesis
  proof (cases out)
    case Nil
    then show ?thesis unfolding out by (simp add: merge_and_optimize_ranges_def)
  next
    case (Cons y ys)
    obtain a b where y: "y = (a, b)" by (cases y)
    have "merge_loop d g (fst y) (snd y) [] ys = y # ys"
      using gaps durs unfolding Cons by (rule merge_loop_fixed)
    then show ?thesis unfolding out using same Cons y
      by (simp add: merge_and_optimize_ranges_def)
  qed
qed

section \<open>Properties of the audio analysis\<close>

text \<open>
  Claim C1, as amended. When no chunk is louder than the floor of -90 dB,
  \<open>analyze_audio_dB\<close> returns the floor as minimum, maximum and mean, and an empty list of
  samples (not the per-chunk list).
\<close>

theorem analyze_audio_all_floor:
  assumes "\<forall>c\<in>set chunks. \<not> chunk_loudness c > - 90"
  shows "analyze_audio_dB chunks = (- 90, - 90, - 90, [])"
proof -
  have "filter (\<lambda>db. db > - 90) (map chunk_loudness chunks) = []"
    using assms by (simp add: filter_empty_conv)
  then show ?thesis by (simp add: analyze_audio_dB_def)
qed

theorem analyze_audio_all_floor_witness:
  "\<not> chunk_loudness \<lparr>rms = 0, dBFS = 0\<rparr> > - 90
   \<and> \<not> chunk_loudness \<lparr>rms = 1, dBFS = - 903 / 10\<rparr> > - 90
   \<and> analyze_audio_dB [\<lparr>rms = 0, dBFS = 0\<rparr>, \<lparr>rms = 1, dBFS = - 903 / 10\<rparr>] = (- 90, - 90, - 90, [])"
  using analyze_audio_all_floor[of "[\<lparr>rms = 0, dBFS = 0\<rparr>, \<lparr>rms = 1, dBFS = - 903 / 10\<rparr>]"]
  by (simp add: chunk_loudness_def)

text \<open>
  Claim C1 as stated fails: for one chunk of zero energy no chunk is above the floor,
  and the returned list of samples is empty while there is one chunk.
\<close>

theorem analyze_audio_samples_counterexample:
  "\<not> chunk_loudness \<lparr>rms = 0, dBFS = 0\<rparr> > - 90
   \<and> analyze_audio_dB [\<lparr>rms = 0, dBFS = 0\<rparr>] = (- 90, - 90, - 90, [])
   \<and> length (snd (snd (snd (analyze_audio_dB [\<lparr>rms = 0, dBFS = 0\<rparr>]))))
       \<noteq> length [\<lparr>rms = 0, dBFS = 0\<rparr>]"
  by (simp add: analyze_audio_dB_def chunk_loudness_def)

text \<open>Once inside a silent run, silent chunks leave the loop state as it is.\<close>

lemma silence_loop_stays:
  "\<forall>c\<in>set chunks. is_silent_chunk thr c
    \<Longrightarrow> silence_loop thr cl i chunks (True, s, rs) = (True, s, rs)"
  by (induction chunks arbitrary: i) simp_all

text \<open>
  Claim C9. For every non-empty sequence of chunks that are all silent (below the
  threshold, or of zero energy), \<open>detect_silence_based_on_dB\<close> returns exactly one range,
  from 0 to the total length of the audio.
\<close>

theorem detect_silence_all_silent:
  assumes "chunks \<noteq> []" and "\<forall>c\<in>set chunks. is_silent_chunk thr c"
  shows "detect_silence_based_on_dB audio_len chunks thr cl = [(0, audio_len)]"
proof -
  obtain c cs where chunks: "chunks = c # cs" using assms(1) by (cases chunks) auto
  have "silence_loop thr cl 0 chunks (False, 0, []) = silence_loop thr cl 1 cs (True, 0, [])"
    using assms(2) by (simp add: chunks)
  also have "\<dots> = (True, 0, [])"
    using assms(2) by (simp add: chunks silence_loop_stays)
  finally show ?thesis by (simp add: detect_silence_based_on_dB_def)
qed

theorem detect_silence_all_silent_witness:
  "[\<lparr>rms = 5, dBFS = - 50\<rparr>, \<lparr>rms = 0, dBFS = 0\<rparr>, \<lparr>rms = 5, dBFS = - 40\<rparr>] \<noteq> []
   \<and> is_silent_chunk (- 30) \<lparr>rms = 5, dBFS = - 50\<rparr>
   \<and> is_silent_chunk (- 30) \<lparr>rms = 0, dBFS = 0\<rparr>
   \<and> is_silent_chunk (- 30) \<lparr>rms = 5, dBFS = - 40\<rparr>
   \<and> detect_silence_based_on_dB 250
        [\<lparr>rms = 5, dBFS = - 50\<rparr>, \<lparr>rms = 0, dBFS = 0\<rparr>, \<lparr>rms = 5, dBFS = - 40\<rparr>] (- 30) 100
       = [(0, 250)]"
  using detect_silence_all_silent[of
      "[\<lparr>rms = 5, dBFS = - 50\<rparr>, \<lparr>rms = 0, dBFS = 0\<rparr>, \<lparr>rms = 5, dBFS = - 40\<rparr>]" "- 30" 250 100]
  by (simp add: is_silent_chunk_def)

section \<open>Properties of the filter-graph builder\<close>

text \<open>
  Claim C7, as amended. For the factor 250 the atempo chain has the two stages 100 and
  2.5 (one stage per division by 100, then the remainder), and their product is 250.
\<close>

theorem atempo_chain_250:
  "build_atempo_chain 250 = [100, 5 / 2] \<and> prod_list (build_atempo_chain 250) = 250"
  by (simp add: build_atempo_chain_def atempo_loop.simps fmt4_def)

text \<open>Claim C7 as stated fails: the chain for 250 is not 100, 100, 25.\<close>

theorem atempo_chain_250_counterexample:
  "build_atempo_chain 250 \<noteq> [100, 100, 25]"
  by (simp add: build_atempo_chain_def atempo_loop.simps fmt4_def)

text \<open>Neither kind of clip changes the frame rate the builder was created with.\<close>

lemma fps_add_clip: "fps (add_clip b a e) = fps b"
  by (simp add: add_clip_def Let_def)

lemma fps_add_speedup_clip: "fps (add_speedup_clip b a e f v) = fps b"
  by (simp add: add_speedup_clip_def Let_def)

lemma fps_chunk_loop: "fps (fst (chunk_loop pm pre post sf sv rs (b, l))) = fps b"
proof (induction rs arbitrary: b l)
  case Nil show ?case by simp
next
  case (Cons r rs)
  obtain s e where r: "r = (s, e)" by (cases r)
  show ?case unfolding r by (simp add: Let_def Cons.IH fps_add_clip fps_add_speedup_clip)
qed

lemma fps_process_chunk_builder:
  "fps (process_chunk_builder video ranges pm pre post dur cfg)
     = (case video_fps video of None \<Rightarrow> 30 | Some f \<Rightarrow> if f \<noteq> 0 \<and> f > 0 then f else 30)"
proof -
  define rate :: real where "rate = (case video_fps video of None \<Rightarrow> 30 | Some f \<Rightarrow> if f \<noteq> 0 \<and> f > 0 then f else 30)"
  define sf where "sf = (case cfg_speedup_factor cfg of None \<Rightarrow> (5::real) | Some f \<Rightarrow> f)"
  define sv where "sv = (case cfg_speedup_volume_percent cfg of None \<Rightarrow> (50::real) | Some p \<Rightarrow> p) / 100"
  define st where "st = chunk_loop pm (pre * 1000) (post * 1000) sf sv ranges (builder_init (video_has_audio video) rate, 0)"
  have "process_chunk_builder video ranges pm pre post dur cfg = add_clip (fst st) (snd st) dur"
    by (simp add: process_chunk_builder_def Let_def rate_def sf_def sv_def st_def split: prod.splits)
  moreover have "fps (fst st) = rate"
    unfolding st_def by (simp add: fps_chunk_loop builder_init_def)
  ultimately show ?thesis by (simp add: fps_add_clip rate_def)
qed

text \<open>
  Claim C10. A reported frame rate that is zero or negative (OpenCV reports zero for a
  rate it cannot read) makes the static-region detector convert frames to milliseconds
  at 30 frames per second, and a frame rate that is absent, zero or negative makes
  \<open>_process_chunk\<close> create its builder with 30 frames per second; the builder's frame
  rate is positive in every case.
\<close>

theorem fps_fallback:
  "(reported_fps \<le> 0 \<longrightarrow>
      detect_central_static_frames is_opened reported_fps total_frames frame_diffs movement_thresh
        = detect_central_static_frames is_opened 30 total_frames frame_diffs movement_thresh)
   \<and> (video_fps video = None \<or> (\<exists>f. video_fps video = Some f \<and> f \<le> 0) \<longrightarrow>
        fps (process_chunk_builder video ranges pm pre post dur cfg) = 30)
   \<and> 0 < fps (process_chunk_builder video ranges pm pre post dur cfg)"
  by (auto simp: detect_central_static_frames_def fps_process_chunk_builder split: option.splits)

theorem fps_fallback_witness:
  "(0::real) \<le> 0
   \<and> detect_central_static_frames True 0 4 [0, 0, 5] 1 = [(100 / 3, 100)]
   \<and> detect_central_static_frames True 0 4 [0, 0, 5] 1
       = detect_central_static_frames True 30 4 [0, 0, 5] 1
   \<and> fps (process_chunk_builder \<lparr>video_fps = None, video_has_audio = True, video_duration = 60\<rparr>
             [(10000, 20000)] Cut 2 1 60000
             \<lparr>cfg_speedup_factor = None, cfg_speedup_volume_percent = None,
              cfg_use_ffmpeg_direct = None, cfg_encoder_priority = None\<rparr>) = 30
   \<and> fps (process_chunk_builder \<lparr>video_fps = Some (- 1), video_has_audio = True, video_duration = 60\<rparr>
             [(10000, 20000)] Cut 2 1 60000
             \<lparr>cfg_speedup_factor = None, cfg_speedup_volume_percent = None,
              cfg_use_ffmpeg_direct = None, cfg_encoder_priority = None\<rparr>) = 30"
proof -
  have computed: "detect_central_static_frames True 0 4 [0, 0, 5] 1 = [(100 / 3, 100)]"
    by (simp add: detect_central_static_frames_def)
  show ?thesis
    using computed
      fps_fallback[of 0 True 4 "[0, 0, 5]" 1
        "\<lparr>video_fps = None, video_has_audio = True, video_duration = 60\<rparr>"
        "[(10000, 20000)]" Cut 2 1 60000
        "\<lparr>cfg_speedup_factor = None, cfg_speedup_volume_percent = None,
              cfg_use_ffmpeg_direct = None, cfg_encoder_priority = None\<rparr>"]
      fps_fallback[of 0 True 4 "[0, 0, 5]" 1
        "\<lparr>video_fps = Some (- 1), video_has_audio = True, video_duration = 60\<rparr>"
        "[(10000, 20000)]" Cut 2 1 60000
        "\<lparr>cfg_speedup_factor = None, cfg_speedup_volume_percent = None,
              cfg_use_ffmpeg_direct = None, cfg_encoder_priority = None\<rparr>"]
    by simp
qed




lemma passthrough_add_speedup_clip:
  "passthrough_segments (add_speedup_clip b a e f v) = passthrough_segments b"
  by (simp add: add_speedup_clip_def passthrough_segments_def Let_def)














section \<open>Properties of the render controller\<close>

text \<open>
  Claim C8. With the fast path enabled by the configuration, 30 plan ranges give the
  estimate 61, above the cap of 50 streams, so the MoviePy path is chosen and run; 10
  plan ranges give 21 and the ffmpeg path is chosen.
\<close>

theorem backend_selection:
  assumes "cfg_use_ffmpeg_direct cfg \<noteq> Some False"
  shows "MAX_CONCAT_STREAMS = 50
       \<and> (length ranges = 30 \<longrightarrow>
            length ranges * 2 + 1 > MAX_CONCAT_STREAMS
          \<and> fst (select_backend cfg video ranges) = False
          \<and> cut_or_speedup_video ffmpeg video ranges pm pre post cfg = [ProgressForced, CallMoviePy])
       \<and> (length ranges = 10 \<longrightarrow>
            length ranges * 2 + 1 \<le> MAX_CONCAT_STREAMS
          \<and> fst (select_backend cfg video ranges) = True)"
  using assms
  by (auto simp: select_backend_def cut_or_speedup_video_def MAX_CONCAT_STREAMS_def Let_def
           split: option.splits)

theorem backend_selection_witness:
  "cfg_use_ffmpeg_direct \<lparr>cfg_speedup_factor = None, cfg_speedup_volume_percent = None,
          cfg_use_ffmpeg_direct = Some True, cfg_encoder_priority = Some [''libx264'']\<rparr> \<noteq> Some False
   \<and> length (replicate 30 (0::real, 1::real)) = 30
   \<and> length (replicate 10 (0::real, 1::real)) = 10
   \<and> fst (select_backend \<lparr>cfg_speedup_factor = None, cfg_speedup_volume_percent = None,
          cfg_use_ffmpeg_direct = Some True, cfg_encoder_priority = Some [''libx264'']\<rparr>
          \<lparr>video_fps = Some 30, video_has_audio = True, video_duration = 60\<rparr>
          (replicate 30 (0, 1))) = False
   \<and> fst (select_backend \<lparr>cfg_speedup_factor = None, cfg_speedup_volume_percent = None,
          cfg_use_ffmpeg_direct = Some True, cfg_encoder_priority = Some [''libx264'']\<rparr>
          \<lparr>video_fps = Some 30, video_has_audio = True, video_duration = 60\<rparr>
          (replicate 10 (0, 1))) = True"
  using backend_selection[of "\<lparr>cfg_speedup_factor = None, cfg_speedup_volume_percent = None,
          cfg_use_ffmpeg_direct = Some True, cfg_encoder_priority = Some [''libx264'']\<rparr>"
          "replicate 30 (0, 1)" "\<lparr>video_fps = Some 30, video_has_audio = True, video_duration = 60\<rparr>"
          "\<lambda>s. Exit0" Cut 2 1]
     backend_selection[of "\<lparr>cfg_speedup_factor = None, cfg_speedup_volume_percent = None,
          cfg_use_ffmpeg_direct = Some True, cfg_encoder_priority = Some [''libx264'']\<rparr>"
          "replicate 10 (0, 1)" "\<lparr>video_fps = Some 30, video_has_audio = True, video_duration = 60\<rparr>"
          "\<lambda>s. Exit0" Cut 2 1]
  by simp

text \<open>
  The trace of \<open>_process_chunk\<close>: it never holds the fallback or the completion dialog,
  and a step that exits with a non-zero status is the last one run.
\<close>

lemma process_chunk_trace:
  assumes "process_chunk ffmpeg video ranges pm pre post dur cfg = (r, evs)"
  shows "CallMoviePy \<notin> set evs \<and> ShowInfoDone \<notin> set evs
       \<and> (\<forall>s. RunFFmpeg s \<in> set evs \<and> ffmpeg s = ExitNonZero
              \<longrightarrow> r = Inr False \<and> last evs = ShowError s)"
proof -
  obtain vfc afc n where b: "build (process_chunk_builder video ranges pm pre post dur cfg) = (vfc, afc, n)"
    by (cases "build (process_chunk_builder video ranges pm pre post dur cfg)") auto
  show ?thesis
  proof (cases "n = 0")
    case True
    then show ?thesis using assms unfolding process_chunk_def b by auto
  next
    case n: False
    show ?thesis
    proof (cases "cfg_encoder_priority cfg")
      case None
      then show ?thesis using assms n unfolding process_chunk_def b by auto
    next
      case (Some encs)
      show ?thesis
      proof (cases encs)
        case Nil
        then show ?thesis using assms n Some unfolding process_chunk_def b by auto
      next
        case (Cons enc rest)
        show ?thesis
          using assms n Some Cons unfolding process_chunk_def b
          by (cases "ffmpeg VideoPass"; cases "ffmpeg AudioPass"; cases "ffmpeg MuxPass";
              cases "video_has_audio video \<and> afc \<noteq> []")
             (auto simp: run_ffmpeg_command_def)
      qed
    qed
  qed
qed

text \<open>
  Claim C3, as amended. When a step that is run exits with a non-zero status, the job
  ends there: the error dialog of that step is the last event, no completion is
  reported and the MoviePy path is not run. The MoviePy path is run at most once in any
  job, and exactly once when the ffmpeg path was chosen and raised an exception.
\<close>

theorem nonzero_exit_no_fallback:
  "(RunFFmpeg s \<in> set (cut_or_speedup_video ffmpeg video ranges pm pre post cfg)
      \<and> ffmpeg s = ExitNonZero
    \<longrightarrow> CallMoviePy \<notin> set (cut_or_speedup_video ffmpeg video ranges pm pre post cfg)
      \<and> ShowInfoDone \<notin> set (cut_or_speedup_video ffmpeg video ranges pm pre post cfg)
      \<and> last (cut_or_speedup_video ffmpeg video ranges pm pre post cfg) = ShowError s)
   \<and> count_list (cut_or_speedup_video ffmpeg video ranges pm pre post cfg) CallMoviePy \<le> 1
   \<and> (fst (select_backend cfg video ranges)
       \<and> (\<exists>e. fst (process_chunk ffmpeg video ranges pm pre post (video_duration video * 1000) cfg)
                 = Inl e)
      \<longrightarrow> count_list (cut_or_speedup_video ffmpeg video ranges pm pre post cfg) CallMoviePy = 1)"
proof -
  obtain u ev0 where sel: "select_backend cfg video ranges = (u, ev0)" by fastforce
  have ev0: "ev0 = [] \<or> ev0 = [ProgressForced] \<and> \<not> u"
    using sel by (auto simp: select_backend_def Let_def split: if_splits)
  obtain r evs where pc: "process_chunk ffmpeg video ranges pm pre post (video_duration video * 1000) cfg = (r, evs)"
    by fastforce
  note t = process_chunk_trace[OF pc]
  have nocall: "count_list evs CallMoviePy = 0"
    using t by (simp add: count_list_0_iff)
  show ?thesis
    using ev0 t nocall unfolding cut_or_speedup_video_def sel pc
    by (cases r; cases "projr r") (auto split: if_splits)
qed

lemmas render_defs =
  cut_or_speedup_video_def select_backend_def MAX_CONCAT_STREAMS_def process_chunk_def
  run_ffmpeg_command_def build_def process_chunk_builder_def builder_init_def add_clip_def
  add_speedup_clip_def Let_def

theorem nonzero_exit_no_fallback_witness:
  "RunFFmpeg AudioPass
     \<in> set (cut_or_speedup_video (\<lambda>s. if s = AudioPass then ExitNonZero else Exit0)
              \<lparr>video_fps = Some 30, video_has_audio = True, video_duration = 60\<rparr>
              [(10000, 20000)] Cut 2 1
              \<lparr>cfg_speedup_factor = None, cfg_speedup_volume_percent = None,
               cfg_use_ffmpeg_direct = None, cfg_encoder_priority = Some [''libx264'']\<rparr>)
   \<and> cut_or_speedup_video (\<lambda>s. if s = AudioPass then ExitNonZero else Exit0)
         \<lparr>video_fps = Some 30, video_has_audio = True, video_duration = 60\<rparr>
         [(10000, 20000)] Cut 2 1
         \<lparr>cfg_speedup_factor = None, cfg_speedup_volume_percent = None,
          cfg_use_ffmpeg_direct = None, cfg_encoder_priority = Some [''libx264'']\<rparr>
       = [RunFFmpeg VideoPass, RunFFmpeg AudioPass, ShowError AudioPass]
   \<and> fst (select_backend
            \<lparr>cfg_speedup_factor = None, cfg_speedup_volume_percent = None,
             cfg_use_ffmpeg_direct = None, cfg_encoder_priority = Some [''libx264'']\<rparr>
            \<lparr>video_fps = Some 30, video_has_audio = True, video_duration = 60\<rparr>
            [(10000, 20000)])
   \<and> fst (process_chunk (\<lambda>s. if s = MuxPass then OSFailure else Exit0)
            \<lparr>video_fps = Some 30, video_has_audio = True, video_duration = 60\<rparr>
            [(10000, 20000)] Cut 2 1 (60 * 1000)
            \<lparr>cfg_speedup_factor = None, cfg_speedup_volume_percent = None,
             cfg_use_ffmpeg_direct = None, cfg_encoder_priority = Some [''libx264'']\<rparr>)
       = Inl OSError
   \<and> count_list
         (cut_or_speedup_video (\<lambda>s. if s = MuxPass then OSFailure else Exit0)
            \<lparr>video_fps = Some 30, video_has_audio = True, video_duration = 60\<rparr>
            [(10000, 20000)] Cut 2 1
            \<lparr>cfg_speedup_factor = None, cfg_speedup_volume_percent = None,
             cfg_use_ffmpeg_direct = None, cfg_encoder_priority = Some [''libx264'']\<rparr>)
         CallMoviePy = 1"
proof -
  have run: "cut_or_speedup_video (\<lambda>s. if s = AudioPass then ExitNonZero else Exit0)
         \<lparr>video_fps = Some 30, video_has_audio = True, video_duration = 60\<rparr>
         [(10000, 20000)] Cut 2 1
         \<lparr>cfg_speedup_factor = None, cfg_speedup_volume_percent = None,
          cfg_use_ffmpeg_direct = None, cfg_encoder_priority = Some [''libx264'']\<rparr>
       = [RunFFmpeg VideoPass, RunFFmpeg AudioPass, ShowError AudioPass]"
    by (simp add: render_defs)
  have sel: "fst (select_backend
            \<lparr>cfg_speedup_factor = None, cfg_speedup_volume_percent = None,
             cfg_use_ffmpeg_direct = None, cfg_encoder_priority = Some [''libx264'']\<rparr>
            \<lparr>video_fps = Some 30, video_has_audio = True, video_duration = 60\<rparr>
            [(10000, 20000)])"
    by (simp add: render_defs)
  have raised: "fst (process_chunk (\<lambda>s. if s = MuxPass then OSFailure else Exit0)
            \<lparr>video_fps = Some 30, video_has_audio = True, video_duration = 60\<rparr>
            [(10000, 20000)] Cut 2 1 (60 * 1000)
            \<lparr>cfg_speedup_factor = None, cfg_speedup_volume_percent = None,
             cfg_use_ffmpeg_direct = None, cfg_encoder_priority = Some [''libx264'']\<rparr>)
       = Inl OSError"
    by (simp add: render_defs)
  show ?thesis
    using run sel raised
      nonzero_exit_no_fallback[of AudioPass "\<lambda>s. if s = AudioPass then ExitNonZero else Exit0"
        "\<lparr>video_fps = Some 30, video_has_audio = True, video_duration = 60\<rparr>"
        "[(10000, 20000)]" Cut 2 1
        "\<lparr>cfg_speedup_factor = None, cfg_speedup_volume_percent = None,
          cfg_use_ffmpeg_direct = None, cfg_encoder_priority = Some [''libx264'']\<rparr>"]
      nonzero_exit_no_fallback[of MuxPass "\<lambda>s. if s = MuxPass then OSFailure else Exit0"
        "\<lparr>video_fps = Some 30, video_has_audio = True, video_duration = 60\<rparr>"
        "[(10000, 20000)]" Cut 2 1
        "\<lparr>cfg_speedup_factor = None, cfg_speedup_volume_percent = None,
          cfg_use_ffmpeg_direct = None, cfg_encoder_priority = Some [''libx264'']\<rparr>"]
    by simp
qed

text \<open>
  Claim C3 as stated fails: on the ffmpeg path, when the video pass exits with a non-zero
  status the trace is the run and its error dialog, and the MoviePy path is not run.
\<close>

theorem nonzero_exit_fallback_counterexample:
  "fst (select_backend
          \<lparr>cfg_speedup_factor = None, cfg_speedup_volume_percent = None,
           cfg_use_ffmpeg_direct = None, cfg_encoder_priority = Some [''libx264'']\<rparr>
          \<lparr>video_fps = Some 30, video_has_audio = True, video_duration = 60\<rparr>
          [(10000, 20000)])
   \<and> cut_or_speedup_video (\<lambda>s. if s = VideoPass then ExitNonZero else Exit0)
         \<lparr>video_fps = Some 30, video_has_audio = True, video_duration = 60\<rparr>
         [(10000, 20000)] Cut 2 1
         \<lparr>cfg_speedup_factor = None, cfg_speedup_volume_percent = None,
          cfg_use_ffmpeg_direct = None, cfg_encoder_priority = Some [''libx264'']\<rparr>
       = [RunFFmpeg VideoPass, ShowError VideoPass]
   \<and> count_list
         (cut_or_speedup_video (\<lambda>s. if s = VideoPass then ExitNonZero else Exit0)
            \<lparr>video_fps = Some 30, video_has_audio = True, video_duration = 60\<rparr>
            [(10000, 20000)] Cut 2 1
            \<lparr>cfg_speedup_factor = None, cfg_speedup_volume_percent = None,
             cfg_use_ffmpeg_direct = None, cfg_encoder_priority = Some [''libx264'']\<rparr>)
         CallMoviePy \<noteq> 1"
  by (simp add: render_defs)

end
